theory Spec2Isabelle
  imports Main "HOL-Library.Word"
begin

section \<open>The write buffer of one table file: MemTableFile.cpp\<close>

text \<open>
  A shallow embedding of \<^verbatim>\<open>core/src/db/insert/MemTableFile.cpp\<close>. The object's
  members are a record, every member function takes the object and returns it updated, and
  the collaborators whose code lives in other files (the vector source, the catalog, the
  segment writer's persistence) are parameters. A call that the C++ program does not
  survive (a null \<^verbatim>\<open>segment_writer_ptr_\<close> dereferenced, an integer division by zero,
  a double out of the range of \<^verbatim>\<open>size_t\<close>) returns \<open>None\<close>. Log lines and metrics
  change nothing that the functions return and are left out.
\<close>

subsection \<open>Types\<close>

text \<open>\<^verbatim>\<open>size_t\<close> is the unsigned 64-bit integer of the platforms the server builds on.\<close>

type_synonym size_t = "64 word"

text \<open>\<^verbatim>\<open>segment::doc_id_t\<close>: ids are only compared for equality.\<close>

type_synonym doc_id_t = int

text \<open>
  Modelled from the spec: the status class of \<^verbatim>\<open>utils/Status.h\<close> and the codes of
  \<^verbatim>\<open>utils/Error.h\<close> are declared outside this file. A status is a code and a message;
  \<^verbatim>\<open>DB_ERROR\<close> is the code this file returns for a buffer that cannot be written to, and
  every other failure of a collaborator is some other code. \<open>OK\<close> is \<^verbatim>\<open>Status::OK()\<close>
  and \<open>ok\<close> is \<^verbatim>\<open>Status::ok()\<close>.
\<close>

datatype ErrorCode = SUCCESS | DB_ERROR | OTHER_ERROR nat

datatype Status = Status (code: ErrorCode) (message: string)

definition OK :: Status where
  "OK = Status SUCCESS []"

definition ok :: "Status \<Rightarrow> bool" where
  "ok s = (code s = SUCCESS)"

text \<open>
  The two engine types and the two file types that the file names; the other members of
  the enumerations are declared elsewhere and are kept apart by their number.
\<close>

datatype EngineType = FAISS_IDMAP | FAISS_BIN_IDMAP | OTHER_ENGINE nat

datatype FILE_TYPE = RAW | TO_INDEX | OTHER_FILE_TYPE nat

text \<open>
  \<^verbatim>\<open>meta::TableFileSchema\<close>, with the fields that this file reads or writes.
  The fields are named as in the source without the trailing underscore.
  \<open>dimension\<close> is an integer, which \<^verbatim>\<open>Add\<close> tests with \<^verbatim>\<open>dimension_ <= 0\<close>.
  \<open>index_file_size\<close> is held as the unsigned 64-bit value that the comparison with a
  \<^verbatim>\<open>size_t\<close> in \<^verbatim>\<open>Serialize\<close> sees.
\<close>

record TableFileSchema =
  table_id :: string
  file_id :: string
  directory :: string
  dimension :: int
  engine_type :: EngineType
  metric_type :: int
  index_file_size :: size_t
  file_type :: FILE_TYPE

text \<open>
  Modelled from the spec: the segment, whose classes are declared outside this file, is a
  mapping from group identifier to a parallel buffer of (logical id, payload) pairs, plus
  an ordered list of logically deleted ids. A payload is the bytes of one vector.
\<close>

type_synonym payload = "8 word list"

type_synonym Vectors = "(doc_id_t \<times> payload) list"

text \<open>Modelled from the spec: \<^verbatim>\<open>GetUids\<close> gives the ordered ids of a group's buffer.\<close>

definition GetUids :: "Vectors \<Rightarrow> doc_id_t list" where
  "GetUids v = map fst v"

text \<open>
  Modelled from the spec: \<^verbatim>\<open>Erase(offset, elementWidth)\<close> erases the entry at the offset.
  The element width tells the writer how many bytes one payload spans; a payload is one
  list element here, so the width does not enter.
\<close>

definition Erase :: "nat \<Rightarrow> int \<Rightarrow> Vectors \<Rightarrow> Vectors" where
  "Erase offset vector_type_size v = take offset v @ drop (Suc offset) v"

text \<open>Modelled from the spec: \<^verbatim>\<open>AddDeleteDoc\<close> appends an id to the list of deleted ids.\<close>

definition AddDeleteDoc :: "doc_id_t \<Rightarrow> doc_id_t list \<Rightarrow> doc_id_t list" where
  "AddDeleteDoc doc_id ds = ds @ [doc_id]"

text \<open>
  The groups are listed in the order in which the loop of \<^verbatim>\<open>Delete\<close> visits them; the
  loop treats every group on its own.
\<close>

record Segment =
  vectors :: "(string \<times> Vectors) list"
  deleted_docs :: "doc_id_t list"

record SegmentWriter =
  writer_directory :: string
  segment_ptr :: Segment

record DBOptions =
  insert_cache_immediately :: bool

text \<open>
  The members of \<^verbatim>\<open>MemTableFile\<close>, named as in the source without the trailing
  underscore; \<open>mem_table_id\<close> is the object's own \<^verbatim>\<open>table_id_\<close>. \<open>None\<close> is the null
  \<^verbatim>\<open>segment_writer_ptr_\<close>.
\<close>

record MemTableFile =
  mem_table_id :: string
  table_file_schema :: TableFileSchema
  current_mem :: size_t
  segment_writer_ptr :: "SegmentWriter option"
  options :: DBOptions

text \<open>
  The vector source, \<^verbatim>\<open>VectorSourcePtr\<close>, is a collaborator: its two member functions
  that \<^verbatim>\<open>Add\<close> calls are parameters, over a state \<open>'s\<close> of the source. \<open>source_Add\<close>
  gets the writer handle, the schema and the number of vectors wanted, and gives back its
  status, the number of vectors it added, and the source and the writer as it left them.
\<close>

record 's VectorSource =
  SingleVectorSize :: "'s \<Rightarrow> int \<Rightarrow> size_t"
  source_Add :: "'s \<Rightarrow> SegmentWriter option \<Rightarrow> TableFileSchema \<Rightarrow> size_t
                   \<Rightarrow> Status \<times> size_t \<times> 's \<times> SegmentWriter option"

text \<open>
  What the file takes from outside, over a state \<open>'x\<close> of the catalog and the storage:
  the constant \<^verbatim>\<open>MAX_TABLE_FILE_MEM\<close> of \<^verbatim>\<open>db/Constants.h\<close>, the predicate
  \<^verbatim>\<open>ValidationUtil::IsBinaryMetricType\<close>, the catalog's \<^verbatim>\<open>CreateTableFile\<close> and
  \<^verbatim>\<open>UpdateTableFile\<close>, and the writer's \<^verbatim>\<open>Serialize\<close> and \<^verbatim>\<open>Cache\<close>.
  Their signatures are those of the interfaces in the spec: \<open>updateFileRecord(schema)
  -> () | StoreError\<close> gives back a status and leaves the schema it is given as it is,
  \<open>serialize() -> () | SerializationError\<close> gives back a status, and \<open>cache() -> ()\<close>
  gives back nothing.
\<close>

record 'x Environment =
  MAX_TABLE_FILE_MEM :: size_t
  IsBinaryMetricType :: "int \<Rightarrow> bool"
  meta_CreateTableFile :: "'x \<Rightarrow> TableFileSchema \<Rightarrow> Status \<times> 'x \<times> TableFileSchema"
  meta_UpdateTableFile :: "'x \<Rightarrow> TableFileSchema \<Rightarrow> Status \<times> 'x"
  writer_Serialize :: "'x \<Rightarrow> SegmentWriter \<Rightarrow> Status \<times> 'x \<times> SegmentWriter"
  writer_Cache :: "'x \<Rightarrow> SegmentWriter \<Rightarrow> 'x \<times> SegmentWriter"

text \<open>
  Modelled from the spec: \<^verbatim>\<open>FLOAT_TYPE_SIZE\<close> of \<^verbatim>\<open>db/Constants.h\<close> is the width of
  an element of a standard vector, 4 bytes.
\<close>

definition FLOAT_TYPE_SIZE :: int where
  "FLOAT_TYPE_SIZE = 4"

text \<open>
  Modelled from the spec: the default member initialisers of the schema are in
  \<^verbatim>\<open>db/meta/MetaTypes.h\<close>. A schema that the catalog has not filled in has dimension 0;
  its other fields are empty.
\<close>

definition default_TableFileSchema :: TableFileSchema where
  "default_TableFileSchema =
     \<lparr>table_id = [], file_id = [], directory = [], dimension = 0,
      engine_type = OTHER_ENGINE 0, metric_type = 0, index_file_size = 0,
      file_type = OTHER_FILE_TYPE 0\<rparr>"

text \<open>Modelled from the spec: a new segment writer holds no group and no deleted id.\<close>

definition new_SegmentWriter :: "string \<Rightarrow> SegmentWriter" where
  "new_SegmentWriter dir =
     \<lparr>writer_directory = dir, segment_ptr = \<lparr>vectors = [], deleted_docs = []\<rparr>\<rparr>"

subsection \<open>Construction\<close>

text \<open>
  \<^verbatim>\<open>CreateTableFile\<close> hands a default schema with the table id to the catalog and keeps
  what the catalog made of it only when the catalog reports success. The constructor
  creates the segment writer only then.
\<close>

definition CreateTableFile ::
  "'x Environment \<Rightarrow> 'x \<Rightarrow> MemTableFile \<Rightarrow> Status \<times> 'x \<times> MemTableFile" where
  "CreateTableFile env x mt =
     (let file_schema = default_TableFileSchema\<lparr>table_id := mem_table_id mt\<rparr>;
          (status, x', file_schema') = meta_CreateTableFile env x file_schema
      in if ok status then (status, x', mt\<lparr>table_file_schema := file_schema'\<rparr>)
         else (status, x', mt))"

definition MemTableFile_new ::
  "'x Environment \<Rightarrow> string \<Rightarrow> DBOptions \<Rightarrow> 'x \<Rightarrow> 'x \<times> MemTableFile" where
  "MemTableFile_new env tid opts x =
     (let mt0 = \<lparr>mem_table_id = tid, table_file_schema = default_TableFileSchema,
                 current_mem = 0, segment_writer_ptr = None, options = opts\<rparr>;
          (status, x', mt1) = CreateTableFile env x mt0
      in if ok status
         then (x', mt1\<lparr>segment_writer_ptr :=
                          Some (new_SegmentWriter (directory (table_file_schema mt1)))\<rparr>)
         else (x', mt1))"

subsection \<open>The memory counter\<close>

definition GetCurrentMem :: "MemTableFile \<Rightarrow> size_t" where
  "GetCurrentMem mt = current_mem mt"

text \<open>The subtraction is the one of \<^verbatim>\<open>size_t\<close>: it wraps around.\<close>

definition GetMemLeft :: "'x Environment \<Rightarrow> MemTableFile \<Rightarrow> size_t" where
  "GetMemLeft env mt = MAX_TABLE_FILE_MEM env - current_mem mt"

definition IsFull :: "'x Environment \<Rightarrow> MemTableFile \<Rightarrow> bool" where
  "IsFull env mt =
     (let single_vector_mem_size =
            (word_of_int (dimension (table_file_schema mt) * FLOAT_TYPE_SIZE) :: size_t)
      in GetMemLeft env mt < single_vector_mem_size)"

subsection \<open>Admission\<close>

text \<open>
  \<^verbatim>\<open>std::ceil(mem_left / single_vector_mem_size)\<close> divides two \<^verbatim>\<open>size_t\<close>, turns the
  quotient into a \<^verbatim>\<open>double\<close>, and the result is turned back into a \<^verbatim>\<open>size_t\<close>. The
  double nearest to an unsigned 64-bit integer is an integer itself, so it is held as a
  \<open>nat\<close>: up to \<open>2 ^ 53\<close> it is the integer, above it is the nearest multiple of the
  spacing of the doubles there, ties to the even one. \<open>std_ceil\<close> of an integral double
  is that double. Turning back a double that \<^verbatim>\<open>size_t\<close> cannot hold is undefined.
\<close>

function ulp_of :: "nat \<Rightarrow> nat" where
  "ulp_of n = (if n < 2 ^ 53 then 1 else 2 * ulp_of (n div 2))"
  by pat_completeness auto
termination
  by (relation "measure id") auto

declare ulp_of.simps [simp del]

definition size_t_to_double :: "size_t \<Rightarrow> nat" where
  "size_t_to_double q =
     (let n = unat q
      in if n < 2 ^ 53 then n
         else let u = ulp_of n; r = n mod u; lo = n - r
              in if 2 * r < u then lo
                 else if u < 2 * r then lo + u
                 else if even (lo div u) then lo else lo + u)"

definition std_ceil :: "nat \<Rightarrow> nat" where
  "std_ceil d = d"

definition double_to_size_t :: "nat \<Rightarrow> size_t option" where
  "double_to_size_t d = (if d < 2 ^ 64 then Some (of_nat d) else None)"

text \<open>
  \<^verbatim>\<open>Add\<close>. The test \<^verbatim>\<open>mem_left >= single_vector_mem_size\<close> lets a size of 0 through
  to the division, which the program does not survive. The handle of the writer is passed
  to the source as it is, null or not.
\<close>

definition Add ::
  "'x Environment \<Rightarrow> 's VectorSource \<Rightarrow> 's \<Rightarrow> MemTableFile
     \<Rightarrow> (Status \<times> 's \<times> MemTableFile) option" where
  "Add env source s mt =
     (if dimension (table_file_schema mt) \<le> 0
      then Some (Status DB_ERROR ''Not able to create table file'', s, mt)
      else
        let single_vector_mem_size =
              SingleVectorSize source s (dimension (table_file_schema mt));
            mem_left = GetMemLeft env mt
        in if mem_left \<ge> single_vector_mem_size
           then
             if single_vector_mem_size = 0 then None
             else
               (case double_to_size_t
                       (std_ceil (size_t_to_double (mem_left div single_vector_mem_size))) of
                  None \<Rightarrow> None
                | Some num_vectors_to_add \<Rightarrow>
                    let (status, num_vectors_added, s', w') =
                          source_Add source s (segment_writer_ptr mt)
                            (table_file_schema mt) num_vectors_to_add
                    in Some (status, s',
                             mt\<lparr>segment_writer_ptr := w',
                                current_mem :=
                                  (if ok status
                                   then current_mem mt
                                          + num_vectors_added * single_vector_mem_size
                                   else current_mem mt)\<rparr>))
           else Some (OK, s, mt))"

subsection \<open>Deletion\<close>

text \<open>\<^verbatim>\<open>std::find\<close> and \<^verbatim>\<open>std::distance\<close>: the offset of the first entry equal to the id.\<close>

fun find_offset :: "doc_id_t list \<Rightarrow> doc_id_t \<Rightarrow> nat option" where
  "find_offset [] doc_id = None"
| "find_offset (u # us) doc_id =
     (if u = doc_id then Some 0 else map_option Suc (find_offset us doc_id))"

text \<open>The body of the loop over the groups of the segment.\<close>

definition Delete_in_group ::
  "doc_id_t \<Rightarrow> int \<Rightarrow> string \<times> Vectors \<Rightarrow> string \<times> Vectors" where
  "Delete_in_group doc_id vector_type_size it =
     (case find_offset (GetUids (snd it)) doc_id of
        Some offset \<Rightarrow> (fst it, Erase offset vector_type_size (snd it))
      | None \<Rightarrow> it)"

text \<open>
  \<^verbatim>\<open>Delete\<close> reads the segment through \<^verbatim>\<open>segment_writer_ptr_\<close> without a test: on a
  null handle the call does not return. The map it loops over holds shared pointers, so
  the erasures reach the segment's own groups.
\<close>

definition Delete ::
  "'x Environment \<Rightarrow> doc_id_t \<Rightarrow> MemTableFile \<Rightarrow> (Status \<times> MemTableFile) option" where
  "Delete env doc_id mt =
     (let vector_type_size =
            (if IsBinaryMetricType env (metric_type (table_file_schema mt))
             then (1 :: int) else 4)
      in case segment_writer_ptr mt of
           None \<Rightarrow> None
         | Some w \<Rightarrow>
             let segment = segment_ptr w;
                 vectors_map = map (Delete_in_group doc_id vector_type_size)
                                   (vectors segment);
                 segment' =
                   segment\<lparr>vectors := vectors_map,
                           deleted_docs := AddDeleteDoc doc_id (deleted_docs segment)\<rparr>
             in Some (OK,
                      mt\<lparr>segment_writer_ptr := Some (w\<lparr>segment_ptr := segment'\<rparr>)\<rparr>))"

subsection \<open>Flush\<close>

text \<open>
  \<^verbatim>\<open>Serialize\<close> calls the writer through the handle without a test. The status of the
  writer's \<^verbatim>\<open>Serialize\<close> is bound to \<open>written\<close> and not used again, as the source
  drops it; the status returned is the catalog's.
\<close>

definition Serialize ::
  "'x Environment \<Rightarrow> 'x \<Rightarrow> MemTableFile \<Rightarrow> (Status \<times> 'x \<times> MemTableFile) option" where
  "Serialize env x mt =
     (case segment_writer_ptr mt of
        None \<Rightarrow> None
      | Some w \<Rightarrow>
          let size = GetCurrentMem mt;
              (written, x1, w1) = writer_Serialize env x w;
              schema = table_file_schema mt;
              schema' =
                (if engine_type schema \<noteq> FAISS_IDMAP \<and> engine_type schema \<noteq> FAISS_BIN_IDMAP
                 then schema\<lparr>file_type :=
                                (if size \<ge> index_file_size schema then TO_INDEX else RAW)\<rparr>
                 else schema\<lparr>file_type := RAW\<rparr>);
              (status, x2) = meta_UpdateTableFile env x1 schema';
              (x3, w3) = (if insert_cache_immediately (options mt)
                          then writer_Cache env x2 w1 else (x2, w1))
          in Some (status, x3,
                   mt\<lparr>table_file_schema := schema', segment_writer_ptr := Some w3\<rparr>))"

subsection \<open>The wording of the specification\<close>

text \<open>
  Following the spec's words, not the source: \<open>bytesPerVector\<close> is the dimension times a
  fixed element width, 4 bytes for a standard metric type and 1 byte for a binary one.
\<close>

definition spec_bytesPerVector :: "'x Environment \<Rightarrow> TableFileSchema \<Rightarrow> size_t" where
  "spec_bytesPerVector env sch =
     word_of_int (dimension sch * (if IsBinaryMetricType env (metric_type sch) then 1 else 4))"

text \<open>
  Following the spec's words: what a deletion does to one group. The group keeps its
  identifier; when the id is among its entries, exactly one entry is gone, the first one
  that carries the id, and otherwise the group is as it was.
\<close>

definition erased_first :: "doc_id_t \<Rightarrow> string \<times> Vectors \<Rightarrow> string \<times> Vectors \<Rightarrow> bool" where
  "erased_first doc_id it it' =
     (fst it' = fst it \<and>
      (if doc_id \<in> set (GetUids (snd it))
       then Suc (length (snd it')) = length (snd it) \<and>
            (\<exists>k < length (snd it).
                fst (snd it ! k) = doc_id \<and> doc_id \<notin> set (GetUids (take k (snd it))) \<and>
                snd it' = take k (snd it) @ drop (Suc k) (snd it))
       else snd it' = snd it))"

subsection \<open>Sequences of calls\<close>

text \<open>
  A caller's sequence of \<^verbatim>\<open>Add\<close> calls on one buffer, each with a source of its own
  choice, over one state of all the sources. The result lists the buffer after every
  call; a call that the program does not survive ends the list.
\<close>

fun Add_trace ::
  "'x Environment \<Rightarrow> 's VectorSource list \<Rightarrow> 's \<Rightarrow> MemTableFile \<Rightarrow> MemTableFile list" where
  "Add_trace env [] s mt = []"
| "Add_trace env (source # sources) s mt =
     (case Add env source s mt of
        None \<Rightarrow> []
      | Some (status, s', mt') \<Rightarrow> mt' # Add_trace env sources s' mt')"

subsection \<open>A small configuration for the examples\<close>

text \<open>
  A budget of 64 bytes, a catalog that hands out a schema of dimension 4 for a standard
  metric and accepts every update, a writer whose persistence succeeds, and a source that
  holds a number of pending vectors of 16 bytes each and supplies as many of them as it is
  asked for.
\<close>

definition example_schema :: "TableFileSchema \<Rightarrow> TableFileSchema" where
  "example_schema sch =
     sch\<lparr>file_id := ''1'', directory := ''/tmp/1'', dimension := 4,
         engine_type := OTHER_ENGINE 2, metric_type := 1, index_file_size := 32,
         file_type := OTHER_FILE_TYPE 0\<rparr>"

definition example_create :: "unit \<Rightarrow> TableFileSchema \<Rightarrow> Status \<times> unit \<times> TableFileSchema" where
  "example_create x sch = (OK, x, example_schema sch)"

definition failing_create :: "unit \<Rightarrow> TableFileSchema \<Rightarrow> Status \<times> unit \<times> TableFileSchema" where
  "failing_create x sch = (Status (OTHER_ERROR 1) ''no catalog'', x, sch)"

definition example_update :: "unit \<Rightarrow> TableFileSchema \<Rightarrow> Status \<times> unit" where
  "example_update x sch = (OK, x)"

definition example_write :: "unit \<Rightarrow> SegmentWriter \<Rightarrow> Status \<times> unit \<times> SegmentWriter" where
  "example_write x w = (OK, x, w)"

definition failing_write :: "unit \<Rightarrow> SegmentWriter \<Rightarrow> Status \<times> unit \<times> SegmentWriter" where
  "failing_write x w = (Status (OTHER_ERROR 2) ''disk full'', x, w)"

definition example_cache :: "unit \<Rightarrow> SegmentWriter \<Rightarrow> unit \<times> SegmentWriter" where
  "example_cache x w = (x, w)"

definition binary_metric :: "int \<Rightarrow> bool" where
  "binary_metric m = (m = 3)"

definition example_env :: "unit Environment" where
  "example_env =
     \<lparr>MAX_TABLE_FILE_MEM = 64, IsBinaryMetricType = binary_metric,
      meta_CreateTableFile = example_create, meta_UpdateTableFile = example_update,
      writer_Serialize = example_write, writer_Cache = example_cache\<rparr>"

definition example_size :: "nat \<Rightarrow> int \<Rightarrow> size_t" where
  "example_size pending d = word_of_int (d * 4)"

definition example_supply ::
  "nat \<Rightarrow> SegmentWriter option \<Rightarrow> TableFileSchema \<Rightarrow> size_t
     \<Rightarrow> Status \<times> size_t \<times> nat \<times> SegmentWriter option" where
  "example_supply pending w sch n =
     (OK, of_nat (min pending (unat n)), pending - min pending (unat n), w)"

definition example_source :: "nat VectorSource" where
  "example_source = \<lparr>SingleVectorSize = example_size, source_Add = example_supply\<rparr>"

definition example_options :: DBOptions where
  "example_options = \<lparr>insert_cache_immediately = False\<rparr>"

definition example_buffer :: MemTableFile where
  "example_buffer = snd (MemTableFile_new example_env ''t'' example_options ())"

text \<open>
  The same buffer built against a catalog that fails, with some vectors in it, for a
  table of binary vectors, and as \<open>Serialize\<close> leaves it; and the configuration whose
  writer fails to persist.
\<close>

definition failing_env :: "unit Environment" where
  "failing_env = example_env\<lparr>meta_CreateTableFile := failing_create\<rparr>"

definition failed_buffer :: MemTableFile where
  "failed_buffer = snd (MemTableFile_new failing_env ''t'' example_options ())"

definition filled_buffer :: MemTableFile where
  "filled_buffer =
     example_buffer
       \<lparr>current_mem := 48,
        segment_writer_ptr :=
          Some \<lparr>writer_directory = ''/tmp/1'',
                segment_ptr =
                  \<lparr>vectors = [(''a'', [(1, [1]), (2, [2]), (1, [3])]), (''b'', [(3, [4])])],
                   deleted_docs = [9]\<rparr>\<rparr>\<rparr>"

definition binary_buffer :: MemTableFile where
  "binary_buffer =
     example_buffer
       \<lparr>table_file_schema :=
          (table_file_schema example_buffer)\<lparr>dimension := 8, metric_type := 3\<rparr>,
        current_mem := 48\<rparr>"

definition flushed_buffer :: MemTableFile where
  "flushed_buffer =
     example_buffer
       \<lparr>table_file_schema := (table_file_schema example_buffer)\<lparr>file_type := RAW\<rparr>\<rparr>"

definition unwritten_env :: "unit Environment" where
  "unwritten_env = example_env\<lparr>writer_Serialize := failing_write\<rparr>"

section \<open>Properties\<close>

subsection \<open>Arithmetic of the counter\<close>

text \<open>
  A quotient below \<open>2 ^ 53\<close> goes through the double unchanged: the number of vectors
  asked for is the quotient of the integer division.
\<close>

lemma requested_count:
  "unat q < 2 ^ 53 \<Longrightarrow> double_to_size_t (std_ceil (size_t_to_double q)) = Some q"
proof -
  assume a: "unat q < 2 ^ 53"
  have "unat q < 2 ^ 64" using a by (rule less_trans) simp
  then show ?thesis using a
    by (simp add: size_t_to_double_def std_ceil_def double_to_size_t_def)
qed

lemma word_budget:
  fixes cur mx svs added :: size_t
  assumes le: "cur \<le> mx" and bound: "added \<le> (mx - cur) div svs"
  shows "cur + added * svs \<le> mx"
proof -
  have a: "unat (mx - cur) = unat mx - unat cur"
    using le by (rule unat_sub)
  have "unat added \<le> unat (mx - cur) div unat svs"
    using bound by (simp add: word_le_nat_alt unat_div)
  then have "unat added * unat svs \<le> (unat (mx - cur) div unat svs) * unat svs"
    by (rule mult_le_mono1)
  also have "\<dots> \<le> unat (mx - cur)"
    by simp
  finally have c: "unat added * unat svs \<le> unat mx - unat cur"
    by (simp add: a)
  have mx: "unat mx < 2 ^ 64"
    using unsigned_less [of mx] by simp
  have "unat added * unat svs < 2 ^ LENGTH(64)"
    using c mx by simp
  then have e: "unat (added * svs) = unat added * unat svs"
    by (simp add: unat_mult_lem [THEN iffD1])
  have cm: "unat cur \<le> unat mx"
    using le by (simp add: word_le_nat_alt)
  have f: "unat cur + unat (added * svs) \<le> unat mx"
    using c e cm by arith
  then have "unat cur + unat (added * svs) < 2 ^ LENGTH(64)"
    using mx by simp
  then have "unat (cur + added * svs) = unat cur + unat (added * svs)"
    by (simp add: unat_add_lem [THEN iffD1])
  then show ?thesis
    using f by (simp add: word_le_nat_alt)
qed

lemma quotient_small:
  fixes cur mx svs :: size_t
  assumes "cur \<le> mx" and "unat mx < 2 ^ 53"
  shows "unat ((mx - cur) div svs) < 2 ^ 53"
proof -
  have "unat ((mx - cur) div svs) = unat (mx - cur) div unat svs"
    by (rule unat_div)
  also have "\<dots> \<le> unat (mx - cur)"
    by simp
  also have "\<dots> = unat mx - unat cur"
    using assms(1) by (rule unat_sub)
  finally show ?thesis
    using assms(2) by simp
qed

text \<open>What a call of \<open>Add\<close> that gets past its two tests does.\<close>

lemma Add_admits:
  assumes dim: "0 < dimension (table_file_schema mt)"
    and svs: "svs = SingleVectorSize source s (dimension (table_file_schema mt))"
    and room: "svs \<le> GetMemLeft env mt"
    and pos: "svs \<noteq> 0"
    and small: "unat (GetMemLeft env mt div svs) < 2 ^ 53"
  shows "Add env source s mt =
           (let (status, num_vectors_added, s', w') =
                   source_Add source s (segment_writer_ptr mt) (table_file_schema mt)
                     (GetMemLeft env mt div svs)
            in Some (status, s',
                     mt\<lparr>segment_writer_ptr := w',
                        current_mem := (if ok status
                                        then current_mem mt + num_vectors_added * svs
                                        else current_mem mt)\<rparr>))"
  using dim room pos requested_count [OF small]
  by (simp add: Add_def Let_def svs [symmetric])

lemma Add_keeps_budget:
  assumes inv: "current_mem mt \<le> MAX_TABLE_FILE_MEM env"
    and small: "unat (MAX_TABLE_FILE_MEM env) < 2 ^ 53"
    and bounded: "\<And>s w sch n status added s' w'.
                    source_Add source s w sch n = (status, added, s', w') \<Longrightarrow> ok status \<Longrightarrow> added \<le> n"
    and run: "Add env source s mt = Some (status, s', mt')"
  shows "current_mem mt' \<le> MAX_TABLE_FILE_MEM env"
proof (cases "0 < dimension (table_file_schema mt)
              \<and> SingleVectorSize source s (dimension (table_file_schema mt)) \<le> GetMemLeft env mt")
  case False
  then have "mt' = mt"
    using run by (auto simp: Add_def Let_def split: if_splits)
  then show ?thesis using inv by simp
next
  case True
  define svs where "svs = SingleVectorSize source s (dimension (table_file_schema mt))"
  define q where "q = GetMemLeft env mt div svs"
  have pos: "svs \<noteq> 0"
    using True run by (auto simp: Add_def Let_def svs_def split: if_splits)
  have qs: "unat q < 2 ^ 53"
    unfolding q_def GetMemLeft_def using inv small by (rule quotient_small)
  obtain st added s1 w1 where call:
    "source_Add source s (segment_writer_ptr mt) (table_file_schema mt) q = (st, added, s1, w1)"
    by (metis prod_cases4)
  have "Add env source s mt =
          Some (st, s1, mt\<lparr>segment_writer_ptr := w1,
                            current_mem := (if ok st then current_mem mt + added * svs
                                            else current_mem mt)\<rparr>)"
    using Add_admits [of mt svs source s env] True pos qs call
    by (simp add: svs_def q_def)
  then have mt': "mt' = mt\<lparr>segment_writer_ptr := w1,
                            current_mem := (if ok st then current_mem mt + added * svs
                                            else current_mem mt)\<rparr>"
    using run by simp
  show ?thesis
  proof (cases "ok st")
    case False
    then show ?thesis using mt' inv by simp
  next
    case True
    then have "added \<le> (MAX_TABLE_FILE_MEM env - current_mem mt) div svs"
      using bounded [OF call] by (simp add: q_def GetMemLeft_def)
    then have "current_mem mt + added * svs \<le> MAX_TABLE_FILE_MEM env"
      using inv by (simp add: word_budget)
    then show ?thesis using mt' True by simp
  qed
qed

lemma Add_keeps_schema:
  "Add env source s mt = Some (status, s', mt') \<Longrightarrow> table_file_schema mt' = table_file_schema mt"
  by (auto simp: Add_def Let_def split: if_splits option.splits prod.splits)

lemma Add_returns:
  assumes inv: "current_mem mt \<le> MAX_TABLE_FILE_MEM env"
    and small: "unat (MAX_TABLE_FILE_MEM env) < 2 ^ 53"
    and pos: "SingleVectorSize source s (dimension (table_file_schema mt)) \<noteq> 0"
  shows "\<exists>r. Add env source s mt = Some r"
proof -
  have "unat (GetMemLeft env mt div SingleVectorSize source s (dimension (table_file_schema mt))) < 2 ^ 53"
    unfolding GetMemLeft_def using inv small by (rule quotient_small)
  then show ?thesis
    using pos by (simp add: Add_def Let_def requested_count split: prod.splits)
qed

lemma example_source_bounded:
  "ok (fst (source_Add example_source s w sch n)) \<longrightarrow>
   fst (snd (source_Add example_source s w sch n)) \<le> n"
  by (simp add: example_source_def example_supply_def word_le_nat_alt le_unat_uoi [of _ n])

text \<open>The equations that unfold the example buffer.\<close>

lemmas example_buffer_simps =
  example_buffer_def MemTableFile_new_def CreateTableFile_def
  default_TableFileSchema_def new_SegmentWriter_def example_options_def
  example_create_def example_schema_def example_env_def OK_def ok_def

lemmas filled_buffer_simps = filled_buffer_def example_buffer_simps

subsection \<open>Admission\<close>

text \<open>
  C1. Along every sequence of \<open>Add\<close> calls on a buffer whose counter starts within the
  budget, the counter \<open>GetCurrentMem\<close> stays at most \<open>MAX_TABLE_FILE_MEM\<close> after every
  call, whenever every source reports at most the number of vectors it was asked for. The
  budget is below \<open>2 ^ 53\<close> bytes, so that the quotient passes through the double
  unchanged. Every call returns when the sources give a vector size other than 0 for the
  dimension of the buffer.
\<close>

theorem Add_never_exceeds_budget:
  assumes inv: "GetCurrentMem mt \<le> MAX_TABLE_FILE_MEM env"
    and small: "unat (MAX_TABLE_FILE_MEM env) < 2 ^ 53"
    and bounded: "\<forall>source \<in> set sources. \<forall>s w sch n.
                    ok (fst (source_Add source s w sch n)) \<longrightarrow>
                    fst (snd (source_Add source s w sch n)) \<le> n"
  shows "(\<forall>mt' \<in> set (Add_trace env sources s mt).
            GetCurrentMem mt' \<le> MAX_TABLE_FILE_MEM env)
         \<and> ((\<forall>source \<in> set sources. \<forall>s.
                SingleVectorSize source s (dimension (table_file_schema mt)) \<noteq> 0)
              \<longrightarrow> length (Add_trace env sources s mt) = length sources)"
  using inv bounded
proof (induction sources arbitrary: s mt)
  case Nil
  show ?case by simp
next
  case (Cons source sources)
  have cur: "current_mem mt \<le> MAX_TABLE_FILE_MEM env"
    using Cons.prems(1) by (simp add: GetCurrentMem_def)
  have src: "\<And>s w sch n status added s' w'.
               source_Add source s w sch n = (status, added, s', w') \<Longrightarrow> ok status \<Longrightarrow> added \<le> n"
  proof -
    fix s w sch n status added s' w'
    assume "source_Add source s w sch n = (status, added, s', w')" and "ok status"
    then show "added \<le> n"
      using Cons.prems(2) by (auto dest!: spec [of _ s] spec [of _ w] spec [of _ sch] spec [of _ n])
  qed
  have rest: "\<forall>source \<in> set sources. \<forall>s w sch n.
                ok (fst (source_Add source s w sch n)) \<longrightarrow>
                fst (snd (source_Add source s w sch n)) \<le> n"
    using Cons.prems(2) by simp
  show ?case
  proof (cases "Add env source s mt")
    case None
    then have "SingleVectorSize source s (dimension (table_file_schema mt)) = 0"
      using Add_returns [OF cur small, of source s] by auto
    then show ?thesis using None by auto
  next
    case (Some r)
    obtain status s' mt' where r: "r = (status, s', mt')"
      by (cases r) auto
    have run: "Add env source s mt = Some (status, s', mt')"
      using Some r by simp
    have "current_mem mt' \<le> MAX_TABLE_FILE_MEM env"
      using cur small src run by (rule Add_keeps_budget)
    then have inv': "GetCurrentMem mt' \<le> MAX_TABLE_FILE_MEM env"
      by (simp add: GetCurrentMem_def)
    have sch: "table_file_schema mt' = table_file_schema mt"
      using run by (rule Add_keeps_schema)
    have IH: "(\<forall>m \<in> set (Add_trace env sources s' mt').
                 GetCurrentMem m \<le> MAX_TABLE_FILE_MEM env)
              \<and> ((\<forall>source \<in> set sources. \<forall>s.
                     SingleVectorSize source s (dimension (table_file_schema mt')) \<noteq> 0)
                   \<longrightarrow> length (Add_trace env sources s' mt') = length sources)"
      using inv' rest by (rule Cons.IH)
    show ?thesis
      using run inv' IH sch by simp
  qed
qed

theorem Add_never_exceeds_budget_witness:
  "GetCurrentMem example_buffer \<le> MAX_TABLE_FILE_MEM example_env
   \<and> unat (MAX_TABLE_FILE_MEM example_env) < 2 ^ 53
   \<and> list_all (\<lambda>mt'. GetCurrentMem mt' \<le> MAX_TABLE_FILE_MEM example_env)
         (Add_trace example_env [example_source, example_source] 10 example_buffer)
   \<and> length (Add_trace example_env [example_source, example_source] 10 example_buffer) = 2
   \<and> map GetCurrentMem
         (Add_trace example_env [example_source, example_source] 10 example_buffer) = [64, 64]"
proof -
  have inv: "GetCurrentMem example_buffer \<le> MAX_TABLE_FILE_MEM example_env"
    by (simp add: GetCurrentMem_def example_buffer_def MemTableFile_new_def CreateTableFile_def
        example_env_def example_create_def OK_def ok_def)
  have small: "unat (MAX_TABLE_FILE_MEM example_env) < 2 ^ 53"
    by (simp add: example_env_def)
  have dim: "dimension (table_file_schema example_buffer) = 4"
    by (simp add: example_buffer_def MemTableFile_new_def CreateTableFile_def
        example_env_def example_create_def example_schema_def OK_def ok_def)
  have pos: "\<forall>source \<in> set [example_source, example_source]. \<forall>s.
               SingleVectorSize source s (dimension (table_file_schema example_buffer)) \<noteq> 0"
    by (simp add: dim example_source_def example_size_def)
  have bounded: "\<forall>source \<in> set [example_source, example_source]. \<forall>s w sch n.
                   ok (fst (source_Add source s w sch n)) \<longrightarrow>
                   fst (snd (source_Add source s w sch n)) \<le> n"
    using example_source_bounded by simp
  have trace: "map GetCurrentMem
                 (Add_trace example_env [example_source, example_source] 10 example_buffer)
               = [64, 64]"
    by (simp add: example_buffer_def MemTableFile_new_def CreateTableFile_def
        default_TableFileSchema_def new_SegmentWriter_def example_options_def
        example_create_def example_schema_def Add_def GetMemLeft_def GetCurrentMem_def
        size_t_to_double_def std_ceil_def double_to_size_t_def example_env_def
        example_source_def example_size_def example_supply_def OK_def ok_def Let_def)
  show ?thesis
    using inv small pos trace
      Add_never_exceeds_budget [of example_buffer example_env
        "[example_source, example_source]" 10, OF inv small bounded]
    by (simp add: list_all_iff)
qed


text \<open>
  C2. When the dimension is positive and the memory left is at least the size of one
  vector, \<open>Add\<close> asks the source for \<open>GetMemLeft env mt div svs\<close> vectors, the quotient
  rounded towards zero, and for no more, whatever the source holds. The size \<open>svs\<close> that
  the source reports is not 0, and the quotient is below \<open>2 ^ 53\<close>.
\<close>

theorem Add_requests_floor:
  assumes dim: "0 < dimension (table_file_schema mt)"
    and svs: "svs = SingleVectorSize source s (dimension (table_file_schema mt))"
    and room: "svs \<le> GetMemLeft env mt"
    and pos: "0 < svs"
    and small: "unat (GetMemLeft env mt) div unat svs < 2 ^ 53"
  shows "Add env source s mt =
           (let num_vectors_to_add = GetMemLeft env mt div svs;
                (status, num_vectors_added, s', w') =
                   source_Add source s (segment_writer_ptr mt) (table_file_schema mt)
                     num_vectors_to_add
            in Some (status, s',
                     mt\<lparr>segment_writer_ptr := w',
                        current_mem := (if ok status
                                        then current_mem mt + num_vectors_added * svs
                                        else current_mem mt)\<rparr>))
         \<and> unat (GetMemLeft env mt div svs) = unat (GetMemLeft env mt) div unat svs"
proof -
  have q: "unat (GetMemLeft env mt div svs) = unat (GetMemLeft env mt) div unat svs"
    by (rule unat_div)
  have "svs \<noteq> 0"
    using pos by simp
  moreover have "unat (GetMemLeft env mt div svs) < 2 ^ 53"
    using small q by simp
  ultimately show ?thesis
    using Add_admits [OF dim svs room] q by (simp add: Let_def)
qed

theorem Add_requests_floor_witness:
  "0 < dimension (table_file_schema example_buffer)
   \<and> (16 :: size_t) = SingleVectorSize example_source 10 (dimension (table_file_schema example_buffer))
   \<and> (16 :: size_t) \<le> GetMemLeft example_env example_buffer
   \<and> unat (GetMemLeft example_env example_buffer) div unat (16 :: size_t) < 2 ^ 53
   \<and> unat (GetMemLeft example_env example_buffer div 16) = 4
   \<and> Add example_env example_source 10 example_buffer
       = Some (OK, 6, example_buffer\<lparr>current_mem := 64\<rparr>)"
proof -
  have dim: "0 < dimension (table_file_schema example_buffer)"
    by (simp add: example_buffer_simps)
  have svs: "(16 :: size_t)
               = SingleVectorSize example_source 10 (dimension (table_file_schema example_buffer))"
    by (simp add: example_buffer_simps example_source_def example_size_def)
  have left: "GetMemLeft example_env example_buffer = 64"
    by (simp add: GetMemLeft_def example_buffer_simps)
  have room: "(16 :: size_t) \<le> GetMemLeft example_env example_buffer"
    by (simp add: left)
  have pos: "0 < (16 :: size_t)"
    by simp
  have small: "unat (GetMemLeft example_env example_buffer) div unat (16 :: size_t) < 2 ^ 53"
    by (simp add: left)
  have call: "source_Add example_source 10 (segment_writer_ptr example_buffer)
                (table_file_schema example_buffer) 4
              = (OK, 4, 6, segment_writer_ptr example_buffer)"
    by (simp add: example_source_def example_supply_def)
  have upd: "example_buffer\<lparr>segment_writer_ptr := segment_writer_ptr example_buffer,
                            current_mem := current_mem example_buffer + 4 * 16\<rparr>
             = example_buffer\<lparr>current_mem := 64\<rparr>"
    by (simp add: example_buffer_simps)
  show ?thesis
    using dim svs room small Add_requests_floor [OF dim svs room pos small] call upd
    by (simp add: left OK_def ok_def)
qed

text \<open>
  C3. When the dimension is positive and the memory left is less than the size of one
  vector, \<open>Add\<close> returns \<open>OK\<close> without calling the source: the source, the counter
  and the segment writer are as before.
\<close>

theorem Add_no_room:
  assumes "0 < dimension (table_file_schema mt)"
    and "GetMemLeft env mt < SingleVectorSize source s (dimension (table_file_schema mt))"
  shows "Add env source s mt = Some (OK, s, mt)"
proof -
  have "\<not> SingleVectorSize source s (dimension (table_file_schema mt)) \<le> GetMemLeft env mt"
    using assms(2) by (simp add: not_le)
  then show ?thesis
    using assms(1) by (simp add: Add_def Let_def)
qed

theorem Add_no_room_witness:
  "0 < dimension (table_file_schema (example_buffer\<lparr>current_mem := 56\<rparr>))
   \<and> GetMemLeft example_env (example_buffer\<lparr>current_mem := 56\<rparr>)
       < SingleVectorSize example_source 10
           (dimension (table_file_schema (example_buffer\<lparr>current_mem := 56\<rparr>)))
   \<and> Add example_env example_source 10 (example_buffer\<lparr>current_mem := 56\<rparr>)
       = Some (OK, 10, example_buffer\<lparr>current_mem := 56\<rparr>)"
proof -
  have dim: "0 < dimension (table_file_schema (example_buffer\<lparr>current_mem := 56\<rparr>))"
    by (simp add: example_buffer_simps)
  have full: "GetMemLeft example_env (example_buffer\<lparr>current_mem := 56\<rparr>)
                < SingleVectorSize example_source 10
                    (dimension (table_file_schema (example_buffer\<lparr>current_mem := 56\<rparr>)))"
    by (simp add: GetMemLeft_def example_buffer_simps example_source_def example_size_def)
  show ?thesis
    using dim full Add_no_room [OF dim full] by simp
qed


text \<open>
  C9. On a buffer whose schema has a dimension that is not positive, \<open>Add\<close> returns the
  status \<open>DB_ERROR\<close>, which is a failure, and leaves the source, the counter and the
  segment writer as they were. A buffer whose construction got a failure from the catalog
  is such a buffer: it keeps the default schema and a null writer, and \<open>Add\<close> returns
  the error without touching the writer.
\<close>

theorem Add_rejects_nonpositive_dimension:
  "(dimension (table_file_schema mt) \<le> 0 \<longrightarrow>
      Add env source s mt = Some (Status DB_ERROR ''Not able to create table file'', s, mt)
      \<and> \<not> ok (Status DB_ERROR ''Not able to create table file''))
   \<and> (\<not> ok (fst (meta_CreateTableFile env x (default_TableFileSchema\<lparr>table_id := tid\<rparr>))) \<longrightarrow>
        dimension (table_file_schema (snd (MemTableFile_new env tid opts x))) \<le> 0
        \<and> segment_writer_ptr (snd (MemTableFile_new env tid opts x)) = None
        \<and> Add env source s (snd (MemTableFile_new env tid opts x))
            = Some (Status DB_ERROR ''Not able to create table file'', s,
                    snd (MemTableFile_new env tid opts x)))"
proof -
  have a: "dimension (table_file_schema m) \<le> 0 \<Longrightarrow>
             Add env source s m = Some (Status DB_ERROR ''Not able to create table file'', s, m)"
    for m
    by (simp add: Add_def)
  have b: "\<not> ok (Status DB_ERROR ''Not able to create table file'')"
    by (simp add: ok_def)
  have c: "\<not> ok (fst (meta_CreateTableFile env x (default_TableFileSchema\<lparr>table_id := tid\<rparr>))) \<Longrightarrow>
             snd (MemTableFile_new env tid opts x)
             = \<lparr>mem_table_id = tid, table_file_schema = default_TableFileSchema,
                current_mem = 0, segment_writer_ptr = None, options = opts\<rparr>"
    by (auto simp: MemTableFile_new_def CreateTableFile_def Let_def split: prod.splits)
  have d: "dimension default_TableFileSchema \<le> 0"
    by (simp add: default_TableFileSchema_def)
  show ?thesis
    using a b c d by simp
qed

theorem Add_rejects_nonpositive_dimension_witness:
  "dimension (table_file_schema failed_buffer) \<le> 0
   \<and> \<not> ok (fst (meta_CreateTableFile failing_env () (default_TableFileSchema\<lparr>table_id := ''t''\<rparr>)))
   \<and> segment_writer_ptr failed_buffer = None
   \<and> Add failing_env example_source 10 failed_buffer
       = Some (Status DB_ERROR ''Not able to create table file'', 10, failed_buffer)"
proof -
  have fails: "\<not> ok (fst (meta_CreateTableFile failing_env ()
                              (default_TableFileSchema\<lparr>table_id := ''t''\<rparr>)))"
    by (simp add: failing_env_def example_env_def failing_create_def ok_def)
  have dim: "dimension (table_file_schema failed_buffer) \<le> 0"
    by (simp add: failed_buffer_def MemTableFile_new_def CreateTableFile_def failing_env_def
        example_env_def failing_create_def ok_def default_TableFileSchema_def)
  show ?thesis
    using fails dim
      Add_rejects_nonpositive_dimension [of failed_buffer failing_env example_source 10
        "()" "''t''" example_options]
    by (simp add: failed_buffer_def)
qed

subsection \<open>Deletion\<close>

text \<open>The offset that \<open>find_offset\<close> gives is the first position of the id.\<close>

lemma find_offset_None: "find_offset us doc_id = None \<longleftrightarrow> doc_id \<notin> set us"
  by (induction us) auto

lemma find_offset_Some:
  "find_offset us doc_id = Some k \<Longrightarrow>
     k < length us \<and> us ! k = doc_id \<and> doc_id \<notin> set (take k us)"
proof (induction us arbitrary: k)
  case Nil
  then show ?case by simp
next
  case (Cons u us)
  show ?case
  proof (cases "u = doc_id")
    case True
    then show ?thesis using Cons.prems by simp
  next
    case False
    then obtain j where j: "find_offset us doc_id = Some j" and k: "k = Suc j"
      using Cons.prems by auto
    then show ?thesis
      using Cons.IH [OF j] False by simp
  qed
qed

lemma Delete_in_group_effect:
  "erased_first doc_id it (Delete_in_group doc_id vector_type_size it)"
proof (cases "find_offset (GetUids (snd it)) doc_id")
  case None
  have "doc_id \<notin> set (GetUids (snd it))"
    using None by (simp add: find_offset_None)
  then show ?thesis
    by (simp add: erased_first_def Delete_in_group_def None)
next
  case (Some k)
  have k: "k < length (snd it)" "fst (snd it ! k) = doc_id"
    "doc_id \<notin> set (GetUids (take k (snd it)))"
    using find_offset_Some [OF Some] by (auto simp: GetUids_def take_map)
  have mem: "doc_id \<in> set (GetUids (snd it))"
    using Some find_offset_None [of "GetUids (snd it)" doc_id] by auto
  have len: "Suc (length (take k (snd it) @ drop (Suc k) (snd it))) = length (snd it)"
    using k(1) by simp
  show ?thesis
    using k mem len Some
    unfolding erased_first_def Delete_in_group_def Erase_def
    by (auto simp del: length_append)
qed

text \<open>
  C5. On a buffer that has a segment writer, \<open>Delete\<close> returns \<open>OK\<close> for every id. It
  appends the id once to the list of deleted ids; in every group that holds the id it
  removes exactly one entry, the first that carries the id, and every other group is as it
  was; when no group holds the id nothing but the list of deleted ids changes. The
  buffer's other members are untouched.
\<close>

theorem Delete_effect:
  assumes "segment_writer_ptr mt = Some w"
  shows "\<exists>vs'.
           Delete env doc_id mt
             = Some (OK, mt\<lparr>segment_writer_ptr :=
                               Some (w\<lparr>segment_ptr :=
                                         (segment_ptr w)
                                           \<lparr>vectors := vs',
                                            deleted_docs :=
                                              deleted_docs (segment_ptr w) @ [doc_id]\<rparr>\<rparr>)\<rparr>)
           \<and> list_all2 (erased_first doc_id) (vectors (segment_ptr w)) vs'
           \<and> ((\<forall>it \<in> set (vectors (segment_ptr w)). doc_id \<notin> set (GetUids (snd it)))
                \<longrightarrow> vs' = vectors (segment_ptr w))"
proof -
  define size where
    "size = (if IsBinaryMetricType env (metric_type (table_file_schema mt)) then (1 :: int) else 4)"
  define vs' where "vs' = map (Delete_in_group doc_id size) (vectors (segment_ptr w))"
  have run: "Delete env doc_id mt
             = Some (OK, mt\<lparr>segment_writer_ptr :=
                               Some (w\<lparr>segment_ptr :=
                                         (segment_ptr w)
                                           \<lparr>vectors := vs',
                                            deleted_docs :=
                                              deleted_docs (segment_ptr w) @ [doc_id]\<rparr>\<rparr>)\<rparr>)"
    using assms by (simp add: Delete_def Let_def AddDeleteDoc_def vs'_def size_def)
  have each: "list_all2 (erased_first doc_id) (vectors (segment_ptr w)) vs'"
    unfolding vs'_def list_all2_map2
    by (rule list_all2_refl) (rule Delete_in_group_effect)
  have absent: "vs' = vectors (segment_ptr w)"
    if "\<forall>it \<in> set (vectors (segment_ptr w)). doc_id \<notin> set (GetUids (snd it))"
  proof -
    have "Delete_in_group doc_id size it = it" if "it \<in> set (vectors (segment_ptr w))" for it
      using that \<open>\<forall>it \<in> set (vectors (segment_ptr w)). doc_id \<notin> set (GetUids (snd it))\<close>
      by (simp add: Delete_in_group_def find_offset_None [THEN iffD2])
    then show ?thesis
      unfolding vs'_def by (simp add: map_idI)
  qed
  show ?thesis
    using run each absent by blast
qed

theorem Delete_effect_witness:
  "segment_writer_ptr filled_buffer
     = Some \<lparr>writer_directory = ''/tmp/1'',
             segment_ptr =
               \<lparr>vectors = [(''a'', [(1, [1]), (2, [2]), (1, [3])]), (''b'', [(3, [4])])],
                deleted_docs = [9]\<rparr>\<rparr>
   \<and> Delete example_env 1 filled_buffer
       = Some (OK, filled_buffer
           \<lparr>segment_writer_ptr :=
              Some \<lparr>writer_directory = ''/tmp/1'',
                    segment_ptr =
                      \<lparr>vectors = [(''a'', [(2, [2]), (1, [3])]), (''b'', [(3, [4])])],
                       deleted_docs = [9, 1]\<rparr>\<rparr>\<rparr>)
   \<and> erased_first 1 (''a'', [(1, [1]), (2, [2]), (1, [3])]) (''a'', [(2, [2]), (1, [3])])
   \<and> erased_first 1 (''b'', [(3, [4])]) (''b'', [(3, [4])])"
proof -
  have w: "segment_writer_ptr filled_buffer
     = Some \<lparr>writer_directory = ''/tmp/1'',
             segment_ptr =
               \<lparr>vectors = [(''a'', [(1, [1]), (2, [2]), (1, [3])]), (''b'', [(3, [4])])],
                deleted_docs = [9]\<rparr>\<rparr>"
    by (simp add: filled_buffer_def)
  have run: "Delete example_env 1 filled_buffer
       = Some (OK, filled_buffer
           \<lparr>segment_writer_ptr :=
              Some \<lparr>writer_directory = ''/tmp/1'',
                    segment_ptr =
                      \<lparr>vectors = [(''a'', [(2, [2]), (1, [3])]), (''b'', [(3, [4])])],
                       deleted_docs = [9, 1]\<rparr>\<rparr>\<rparr>)"
    by (simp add: Delete_def Delete_in_group_def GetUids_def Erase_def AddDeleteDoc_def
        filled_buffer_simps binary_metric_def Let_def)
  obtain vs' where vs':
    "Delete example_env 1 filled_buffer
       = Some (OK, filled_buffer
           \<lparr>segment_writer_ptr :=
              Some \<lparr>writer_directory = ''/tmp/1'',
                    segment_ptr =
                      \<lparr>vectors = vs', deleted_docs = [9, 1]\<rparr>\<rparr>\<rparr>)"
    "list_all2 (erased_first 1)
       [(''a'', [(1, [1]), (2, [2]), (1, [3])]), (''b'', [(3, [4])])] vs'"
    using Delete_effect [OF w, of example_env 1] by auto
  have "vs' = [(''a'', [(2, [2]), (1, [3])]), (''b'', [(3, [4])])]"
    using vs'(1) run by (simp add: filled_buffer_simps)
  then show ?thesis
    using w run vs'(2) by simp
qed

text \<open>
  C10. \<open>Delete\<close> returns on every buffer that has a segment writer, and never changes
  the counter: \<open>GetCurrentMem\<close> after the call is \<open>GetCurrentMem\<close> before it, also when
  an entry was erased, so the file type that a later \<open>Serialize\<close> assigns is the one it
  would have assigned without the deletion.
\<close>

theorem Delete_keeps_current_mem:
  "(Delete env doc_id mt = None \<longleftrightarrow> segment_writer_ptr mt = None)
   \<and> (\<forall>status mt'. Delete env doc_id mt = Some (status, mt') \<longrightarrow>
          GetCurrentMem mt' = GetCurrentMem mt
          \<and> (\<forall>x. map_option (\<lambda>r. file_type (table_file_schema (snd (snd r))))
                     (Serialize env x mt')
                 = map_option (\<lambda>r. file_type (table_file_schema (snd (snd r))))
                     (Serialize env x mt)))"
  by (auto simp: Delete_def Serialize_def GetCurrentMem_def Let_def
      split: option.splits prod.splits)

theorem Delete_keeps_current_mem_witness:
  "Delete example_env 2 filled_buffer
     = Some (OK, filled_buffer
         \<lparr>segment_writer_ptr :=
            Some \<lparr>writer_directory = ''/tmp/1'',
                  segment_ptr =
                    \<lparr>vectors = [(''a'', [(1, [1]), (1, [3])]), (''b'', [(3, [4])])],
                     deleted_docs = [9, 2]\<rparr>\<rparr>\<rparr>)
   \<and> GetCurrentMem filled_buffer = 48
   \<and> GetCurrentMem (filled_buffer
         \<lparr>segment_writer_ptr :=
            Some \<lparr>writer_directory = ''/tmp/1'',
                  segment_ptr =
                    \<lparr>vectors = [(''a'', [(1, [1]), (1, [3])]), (''b'', [(3, [4])])],
                     deleted_docs = [9, 2]\<rparr>\<rparr>\<rparr>) = 48"
proof -
  have run: "Delete example_env 2 filled_buffer
     = Some (OK, filled_buffer
         \<lparr>segment_writer_ptr :=
            Some \<lparr>writer_directory = ''/tmp/1'',
                  segment_ptr =
                    \<lparr>vectors = [(''a'', [(1, [1]), (1, [3])]), (''b'', [(3, [4])])],
                     deleted_docs = [9, 2]\<rparr>\<rparr>\<rparr>)"
    by (simp add: Delete_def Delete_in_group_def GetUids_def Erase_def AddDeleteDoc_def
        filled_buffer_simps binary_metric_def Let_def)
  have before: "GetCurrentMem filled_buffer = 48"
    by (simp add: GetCurrentMem_def filled_buffer_def)
  show ?thesis
    using run before Delete_keeps_current_mem [of example_env 2 filled_buffer]
    by simp
qed

subsection \<open>Flush\<close>

text \<open>
  C6. On a buffer that has a segment writer, \<open>Serialize\<close> returns, and the file type it
  leaves in the schema is \<open>RAW\<close> when the engine type is \<open>FAISS_IDMAP\<close> or
  \<open>FAISS_BIN_IDMAP\<close>, whatever the size; for any other engine type it is \<open>TO_INDEX\<close>
  when the counter at the call is at least \<open>index_file_size\<close>, and \<open>RAW\<close> otherwise.
\<close>

theorem Serialize_classification:
  assumes "segment_writer_ptr mt = Some w"
  shows "\<exists>status x' mt'.
           Serialize env x mt = Some (status, x', mt')
           \<and> file_type (table_file_schema mt')
               = (if engine_type (table_file_schema mt) = FAISS_IDMAP
                     \<or> engine_type (table_file_schema mt) = FAISS_BIN_IDMAP
                  then RAW
                  else if index_file_size (table_file_schema mt) \<le> GetCurrentMem mt
                  then TO_INDEX else RAW)"
  using assms
  by (auto simp: Serialize_def Let_def split: prod.splits)

theorem Serialize_classification_witness:
  "segment_writer_ptr filled_buffer
     = Some \<lparr>writer_directory = ''/tmp/1'',
             segment_ptr =
               \<lparr>vectors = [(''a'', [(1, [1]), (2, [2]), (1, [3])]), (''b'', [(3, [4])])],
                deleted_docs = [9]\<rparr>\<rparr>
   \<and> Serialize example_env () filled_buffer
       = Some (OK, (), filled_buffer
            \<lparr>table_file_schema := (table_file_schema filled_buffer)\<lparr>file_type := TO_INDEX\<rparr>\<rparr>)
   \<and> index_file_size (table_file_schema filled_buffer) \<le> GetCurrentMem filled_buffer"
proof -
  have w: "segment_writer_ptr filled_buffer
     = Some \<lparr>writer_directory = ''/tmp/1'',
             segment_ptr =
               \<lparr>vectors = [(''a'', [(1, [1]), (2, [2]), (1, [3])]), (''b'', [(3, [4])])],
                deleted_docs = [9]\<rparr>\<rparr>"
    by (simp add: filled_buffer_def)
  have run: "Serialize example_env () filled_buffer
       = Some (OK, (), filled_buffer
            \<lparr>table_file_schema := (table_file_schema filled_buffer)\<lparr>file_type := TO_INDEX\<rparr>\<rparr>)"
    by (simp add: Serialize_def GetCurrentMem_def filled_buffer_simps example_write_def
        example_update_def example_cache_def Let_def)
  have size: "index_file_size (table_file_schema filled_buffer) \<le> GetCurrentMem filled_buffer"
    by (simp add: GetCurrentMem_def filled_buffer_simps)
  show ?thesis
    using w size Serialize_classification [OF w, of example_env "()"] run
    by simp
qed


text \<open>
  C7. \<open>Serialize\<close> drops the status of the writer's own \<open>Serialize\<close> and returns the
  status of the catalog update: with a writer that fails to persist and a catalog that
  accepts the update, the caller gets \<open>OK\<close>.
\<close>

theorem Serialize_drops_writer_status:
  "segment_writer_ptr example_buffer = Some (new_SegmentWriter ''/tmp/1'')
   \<and> \<not> ok (fst (writer_Serialize unwritten_env () (new_SegmentWriter ''/tmp/1'')))
   \<and> Serialize unwritten_env () example_buffer = Some (OK, (), flushed_buffer)
   \<and> ok OK"
  by (simp add: Serialize_def GetCurrentMem_def unwritten_env_def failing_write_def
      flushed_buffer_def example_buffer_simps example_update_def Let_def)

text \<open>
  C8, as stated, fails: after a \<open>Serialize\<close> that returned \<open>OK\<close>, an \<open>Add\<close> is
  accepted and raises the counter from 0 to 64, and a \<open>Delete\<close> is accepted and appends
  its id.
\<close>

theorem Add_after_Serialize_counterexample:
  "Serialize example_env () example_buffer = Some (OK, (), flushed_buffer)
   \<and> ok OK
   \<and> Add example_env example_source 10 flushed_buffer
       = Some (OK, 6, flushed_buffer\<lparr>current_mem := 64\<rparr>)
   \<and> GetCurrentMem flushed_buffer = 0
   \<and> GetCurrentMem (flushed_buffer\<lparr>current_mem := 64\<rparr>) = 64
   \<and> Delete example_env 7 flushed_buffer
       = Some (OK, flushed_buffer
            \<lparr>segment_writer_ptr :=
               Some \<lparr>writer_directory = ''/tmp/1'',
                     segment_ptr = \<lparr>vectors = [], deleted_docs = [7]\<rparr>\<rparr>\<rparr>)"
  by (simp add: Serialize_def GetCurrentMem_def GetMemLeft_def Add_def Delete_def
      AddDeleteDoc_def size_t_to_double_def std_ceil_def double_to_size_t_def
      flushed_buffer_def example_buffer_simps example_update_def example_write_def
      example_cache_def example_source_def example_size_def example_supply_def Let_def)

text \<open>
  C8, amended. \<open>Serialize\<close> keeps no mark of having run: it leaves the counter, the
  memory left and the dimension as they were and the writer handle in place. So a
  \<open>Delete\<close> after it returns \<open>OK\<close> and appends its id, and an \<open>Add\<close> after it that
  has a positive dimension and room for one vector asks the source for the same number of
  vectors as before the flush and adds what it gets to the counter.
\<close>

theorem Serialize_not_terminal:
  assumes run: "Serialize env x mt = Some (status, x', mt')"
  shows "GetCurrentMem mt' = GetCurrentMem mt
         \<and> GetMemLeft env mt' = GetMemLeft env mt
         \<and> dimension (table_file_schema mt') = dimension (table_file_schema mt)
         \<and> (\<exists>w'. segment_writer_ptr mt' = Some w'
                \<and> Delete env doc_id mt'
                    = Some (OK, mt'\<lparr>segment_writer_ptr :=
                          Some (w'\<lparr>segment_ptr :=
                                  (segment_ptr w')
                                    \<lparr>vectors := map (Delete_in_group doc_id
                                          (if IsBinaryMetricType env
                                                (metric_type (table_file_schema mt'))
                                           then 1 else 4))
                                        (vectors (segment_ptr w')),
                                     deleted_docs :=
                                       deleted_docs (segment_ptr w') @ [doc_id]\<rparr>\<rparr>)\<rparr>))
         \<and> (0 < dimension (table_file_schema mt) \<longrightarrow>
              svs = SingleVectorSize source s (dimension (table_file_schema mt)) \<longrightarrow>
              svs \<le> GetMemLeft env mt \<longrightarrow> svs \<noteq> 0 \<longrightarrow>
              unat (GetMemLeft env mt div svs) < 2 ^ 53 \<longrightarrow>
              Add env source s mt'
                = (let (status, num_vectors_added, s', w') =
                         source_Add source s (segment_writer_ptr mt') (table_file_schema mt')
                           (GetMemLeft env mt div svs)
                   in Some (status, s',
                            mt'\<lparr>segment_writer_ptr := w',
                                current_mem := (if ok status
                                                then current_mem mt' + num_vectors_added * svs
                                                else current_mem mt')\<rparr>)))"
proof -
  have cur: "current_mem mt' = current_mem mt"
    using run by (auto simp: Serialize_def Let_def split: option.splits prod.splits if_splits)
  have dim: "dimension (table_file_schema mt') = dimension (table_file_schema mt)"
    using run by (auto simp: Serialize_def Let_def split: option.splits prod.splits if_splits)
  obtain w' where w': "segment_writer_ptr mt' = Some w'"
    using run by (auto simp: Serialize_def Let_def split: option.splits prod.splits if_splits)
  have left: "GetMemLeft env mt' = GetMemLeft env mt"
    using cur by (simp add: GetMemLeft_def)
  have del: "Delete env doc_id mt'
               = Some (OK, mt'\<lparr>segment_writer_ptr :=
                     Some (w'\<lparr>segment_ptr :=
                             (segment_ptr w')
                               \<lparr>vectors := map (Delete_in_group doc_id
                                     (if IsBinaryMetricType env
                                           (metric_type (table_file_schema mt'))
                                      then 1 else 4))
                                   (vectors (segment_ptr w')),
                                deleted_docs :=
                                  deleted_docs (segment_ptr w') @ [doc_id]\<rparr>\<rparr>)\<rparr>)"
    using w' by (simp add: Delete_def Let_def AddDeleteDoc_def)
  have add: "Add env source s mt'
                = (let (status, num_vectors_added, s', w') =
                         source_Add source s (segment_writer_ptr mt') (table_file_schema mt')
                           (GetMemLeft env mt div svs)
                   in Some (status, s',
                            mt'\<lparr>segment_writer_ptr := w',
                                current_mem := (if ok status
                                                then current_mem mt' + num_vectors_added * svs
                                                else current_mem mt')\<rparr>))"
    if "0 < dimension (table_file_schema mt)"
      and "svs = SingleVectorSize source s (dimension (table_file_schema mt))"
      and "svs \<le> GetMemLeft env mt" and "svs \<noteq> 0"
      and "unat (GetMemLeft env mt div svs) < 2 ^ 53"
    using Add_admits [of mt' svs source s env] that
    by (simp add: dim left)
  show ?thesis
    using cur dim w' left del add by (simp add: GetCurrentMem_def)
qed


theorem Serialize_not_terminal_witness:
  "Serialize example_env () example_buffer = Some (OK, (), flushed_buffer)
   \<and> GetCurrentMem flushed_buffer = GetCurrentMem example_buffer
   \<and> 0 < dimension (table_file_schema example_buffer)
   \<and> (16 :: size_t) = SingleVectorSize example_source 10 (dimension (table_file_schema example_buffer))
   \<and> (16 :: size_t) \<le> GetMemLeft example_env example_buffer
   \<and> unat (GetMemLeft example_env example_buffer div 16) < 2 ^ 53
   \<and> Add example_env example_source 10 flushed_buffer
       = Some (OK, 6, flushed_buffer\<lparr>current_mem := 64\<rparr>)
   \<and> Delete example_env 7 flushed_buffer
       = Some (OK, flushed_buffer
            \<lparr>segment_writer_ptr :=
               Some \<lparr>writer_directory = ''/tmp/1'',
                     segment_ptr = \<lparr>vectors = [], deleted_docs = [7]\<rparr>\<rparr>\<rparr>)"
proof -
  have run: "Serialize example_env () example_buffer = Some (OK, (), flushed_buffer)"
    by (simp add: Serialize_def GetCurrentMem_def flushed_buffer_def example_buffer_simps
        example_update_def example_write_def example_cache_def Let_def)
  have dim: "0 < dimension (table_file_schema example_buffer)"
    by (simp add: example_buffer_simps)
  have svs: "(16 :: size_t)
               = SingleVectorSize example_source 10 (dimension (table_file_schema example_buffer))"
    by (simp add: example_buffer_simps example_source_def example_size_def)
  have left: "GetMemLeft example_env example_buffer = 64"
    by (simp add: GetMemLeft_def example_buffer_simps)
  have room: "(16 :: size_t) \<le> GetMemLeft example_env example_buffer"
    by (simp add: left)
  have small: "unat (GetMemLeft example_env example_buffer div 16) < 2 ^ 53"
    by (simp add: left)
  have w: "segment_writer_ptr flushed_buffer
             = Some \<lparr>writer_directory = ''/tmp/1'',
                     segment_ptr = \<lparr>vectors = [], deleted_docs = []\<rparr>\<rparr>"
    by (simp add: flushed_buffer_def example_buffer_simps)
  have call: "source_Add example_source 10 (segment_writer_ptr flushed_buffer)
                (table_file_schema flushed_buffer) 4
              = (OK, 4, 6, segment_writer_ptr flushed_buffer)"
    by (simp add: example_source_def example_supply_def)
  have upd: "flushed_buffer\<lparr>segment_writer_ptr := segment_writer_ptr flushed_buffer,
                            current_mem := current_mem flushed_buffer + 4 * 16\<rparr>
             = flushed_buffer\<lparr>current_mem := 64\<rparr>"
    by (simp add: flushed_buffer_def example_buffer_simps)
  show ?thesis
    using run dim svs room small
      Serialize_not_terminal [OF run, of 7 16 example_source 10] call upd w
    by (simp add: left OK_def ok_def)
qed

subsection \<open>Fullness\<close>

text \<open>\<open>IsFull\<close> compares with four bytes per dimension, whatever the metric type.\<close>

lemma IsFull_float_width:
  "IsFull env mt
     = (GetMemLeft env mt < word_of_int (dimension (table_file_schema mt) * 4))"
  by (simp add: IsFull_def FLOAT_TYPE_SIZE_def)

text \<open>
  C4. For a table of binary vectors of dimension 8 with 16 bytes left, \<open>IsFull\<close> is
  true, while the memory left is not below the 8 bytes that \<open>spec_bytesPerVector\<close> gives
  for one binary vector.
\<close>

theorem IsFull_binary_buffer:
  "IsBinaryMetricType example_env (metric_type (table_file_schema binary_buffer))
   \<and> dimension (table_file_schema binary_buffer) = 8
   \<and> GetMemLeft example_env binary_buffer = 16
   \<and> spec_bytesPerVector example_env (table_file_schema binary_buffer) = 8
   \<and> IsFull example_env binary_buffer
   \<and> \<not> GetMemLeft example_env binary_buffer
         < spec_bytesPerVector example_env (table_file_schema binary_buffer)"
  by (simp add: IsFull_def FLOAT_TYPE_SIZE_def GetMemLeft_def spec_bytesPerVector_def
      binary_buffer_def example_buffer_simps binary_metric_def)

end
